theory Spec2Isabelle
  imports Complex_Main
begin

section \<open>Arrays and errors\<close>

text \<open>
  The emulator of \<^verbatim>\<open>medea/BeamEmulator.py\<close> works on numpy arrays of floats. The model
  takes the entries as reals: a rank-1 array is a list, a rank-2 array is the list of its
  rows, a rank-3 array the list of its rank-2 slices along the first axis. An array with
  an axis of length zero therefore keeps no record of the axes behind it. Integer index
  arrays are lists of unbounded integers.

  The file as it stands does not parse: the \<^verbatim>\<open>try\<close> block of lines 151 to 154 has no
  handler, and the decorators of lines 218 and 227 (the accessor of the inverse basis)
  are malformed. The model follows the statements of each method as they are written:
  the statements under the \<^verbatim>\<open>try\<close> run with no handler, so what they raise is raised
  by the method. The inverse accessor, which no query reads, is left aside.
\<close>

type_synonym vec = "real list"
type_synonym mat = "real list list"
type_synonym tensor = "real list list list"

text \<open>
  The exceptions the code can raise. \<open>UnboundLocalError\<close> is Python's subclass of
  \<open>NameError\<close> for a local name read before assignment; \<open>NameError\<close> itself is used for
  a module-level name that the guarded import at the top of the file left undefined,
  and \<open>ImportError\<close> for an import statement that finds no module.
  The last four constructors are the error kinds of the specification; no statement of
  the source raises them.
\<close>

datatype error =
    AttributeError | KeyError | NameError | UnboundLocalError
  | IndexError | ValueError | TypeError | ImportError
  | ConfigurationError | DimensionMismatch | MissingDependency | ModelNotReady

definition dot :: "vec \<Rightarrow> vec \<Rightarrow> real" where
  "dot u v = sum_list (map (\<lambda>(a, b). a * b) (zip u v))"

text \<open>\<^verbatim>\<open>np.matmul(M, v)\<close> for a rank-2 \<open>M\<close> and a rank-1 \<open>v\<close>: the inner lengths must agree.\<close>

definition matmul_vec :: "mat \<Rightarrow> vec \<Rightarrow> error + vec" where
  "matmul_vec M v =
     (if list_all (\<lambda>row. length row = length v) M
      then Inr (map (\<lambda>row. dot row v) M)
      else Inl ValueError)"

text \<open>\<^verbatim>\<open>np.matmul(M, C.T)\<close> for rank-2 \<open>M\<close> and \<open>C\<close>: one output row per row of \<open>M\<close>,
  one output column per row of \<open>C\<close>.\<close>

definition matmul_T :: "mat \<Rightarrow> mat \<Rightarrow> error + mat" where
  "matmul_T M C =
     (if list_all (\<lambda>row. list_all (\<lambda>c. length row = length c) C) M
      then Inr (map (\<lambda>row. map (\<lambda>c. dot row c) C) M)
      else Inl ValueError)"

text \<open>The slice \<^verbatim>\<open>xs[:k]\<close>: everything for \<^verbatim>\<open>None\<close>, the first \<open>k\<close> entries for
  \<open>k \<ge> 0\<close>, all but the last \<open>-k\<close> entries for \<open>k < 0\<close>.\<close>

definition slice_upto :: "int option \<Rightarrow> 'a list \<Rightarrow> 'a list" where
  "slice_upto k xs =
     (case k of
        None \<Rightarrow> xs
      | Some n \<Rightarrow> if 0 \<le> n then take (nat n) xs else take (nat (int (length xs) + n)) xs)"

text \<open>\<^verbatim>\<open>np.reshape(a, (h, -1))\<close> on the flattened (row-major) data of \<open>a\<close>.\<close>

definition reshape_rows :: "nat \<Rightarrow> real list \<Rightarrow> error + mat" where
  "reshape_rows h flat =
     (if h = 0 \<or> length flat mod h \<noteq> 0 then Inl ValueError
      else Inr (map (\<lambda>i. take (length flat div h) (drop (i * (length flat div h)) flat)) [0..<h]))"

definition flatten :: "tensor \<Rightarrow> real list" where
  "flatten t = concat (map concat t)"

text \<open>\<^verbatim>\<open>hp.nside2npix(nside)\<close>.\<close>

definition nside2npix :: "int \<Rightarrow> nat" where
  "nside2npix nside = nat (12 * nside * nside)"

text \<open>
  The assignment \<^verbatim>\<open>a[idx] = vals\<close> with an integer index array: the values must have
  the length of the index array (or length one, which is broadcast), every index must
  lie in \<open>[-n, n)\<close> for \<open>n\<close> the length of \<open>a\<close>, and a negative index counts from the
  end. Where an index is repeated the model lets the last assignment stay, as the
  implementation does for a rank-1 index array; numpy promises no order, and no claim
  below is settled by one.
\<close>

definition wrap_index :: "nat \<Rightarrow> int \<Rightarrow> nat" where
  "wrap_index n i = (if i < 0 then nat (i + int n) else nat i)"

definition setitem_fancy :: "vec \<Rightarrow> int list \<Rightarrow> vec \<Rightarrow> error + vec" where
  "setitem_fancy a idx vals =
     (if length vals \<noteq> length idx \<and> length vals \<noteq> 1 then Inl ValueError
      else if \<not> list_all (\<lambda>i. - int (length a) \<le> i \<and> i < int (length a)) idx then Inl IndexError
      else Inr (fold (\<lambda>(i, v) m. m[wrap_index (length a) i := v])
                  (zip idx (if length vals = length idx then vals
                            else replicate (length idx) (hd vals))) a))"

section \<open>The external libraries\<close>

text \<open>
  What scipy and scikit-learn compute is not part of the repository. The model takes
  them as a parameter \<open>env\<close>: the spline constructor, the two regressor fits and the
  score function are arbitrary functions that may fail, and \<open>sklearn_available\<close> tells
  whether the guarded import of scikit-learn at the top of the module succeeded. A
  fitted spline is a function from the query point to the coefficient slice; a fitted
  regressor carries its prediction, the kernel parameters and log marginal likelihood of
  each of its estimators, and its score. A kernel is one of the three classes the code
  names, with its length scale and shape parameter, times a constant.
\<close>

datatype kernel = RBF real | Matern real real | RationalQuadratic real real

datatype scaled_kernel = Product real kernel

record estimator =
  est_kernel :: scaled_kernel
  n_restarts_optimizer :: nat
  normalize_y :: bool

record regressor =
  regr_predict :: "mat \<Rightarrow> error + mat"
  regr_estimators :: "((string \<times> real) list \<times> real) list"
  regr_score :: "mat \<Rightarrow> mat \<Rightarrow> error + real"

datatype interpolater = BSpline "real \<Rightarrow> mat" | Regr regressor

record backend =
  sklearn_available :: bool
  make_interp_spline :: "real list \<Rightarrow> tensor \<Rightarrow> int \<Rightarrow> error + (real \<Rightarrow> mat)"
  MultiOutputRegressor_fit :: "estimator \<Rightarrow> mat \<Rightarrow> mat \<Rightarrow> error + regressor"
  RegressorChain_fit :: "estimator \<Rightarrow> mat \<Rightarrow> mat \<Rightarrow> error + regressor"
  r2_score :: "mat \<Rightarrow> mat \<Rightarrow> error + real"

section \<open>The emulator object\<close>

text \<open>
  The dictionary \<^verbatim>\<open>gpr_kwargs\<close> is read at the three keys \<^verbatim>\<open>'kernel'\<close>,
  \<^verbatim>\<open>'normalize_y'\<close> and \<^verbatim>\<open>'regressor'\<close>; a missing key is \<open>None\<close>. The default \<^verbatim>\<open>{}\<close>
  has none of them.
\<close>

record gpr_kwargs =
  kw_kernel :: "string option"
  kw_normalize_y :: "bool option"
  kw_regressor :: "string option"

text \<open>
  The attributes of a \<^verbatim>\<open>BeamEmulator\<close>. The first twelve are assigned by \<^verbatim>\<open>__init__\<close>.
  The others exist only once something assigns them, so they are optional:
  \<open>cryo_basis\<close> is the attribute that the accessor \<^verbatim>\<open>cryo_basis_kl_to_beam\<close> reads
  (the constructor stores its argument under the name \<open>cryobasis\<close>), and the
  \<open>cached_\<close> fields are the underscore attributes
  \<^verbatim>\<open>_hyper_parameter_interpolater\<close> and \<^verbatim>\<open>_cryo_basis_kl_to_beam\<close> behind the lazy
  properties; the last four hold the diagnostics.
\<close>

record emulator =
  frequencies :: "real list"
  nside :: int
  cryobasis :: mat
  cryo_coefficients :: tensor
  hyper_parameter_array :: "real list"
  unmasked_indices :: "int list"
  interpolation_order :: int
  use_gpr :: bool
  coefficient_order :: "int option"
  gpr_kwargs :: gpr_kwargs
  return_beam_above_horizon :: bool
  unmasked_indices_in_julia_ordering :: bool
  cryo_basis :: "mat option"
  cached_hyper_parameter_interpolater :: "interpolater option"
  cached_cryo_basis_kl_to_beam :: "mat option"
  estimator_hyper_parameters :: "(string \<times> real) list list option"
  estimator_log_marginal_likelihoods :: "real list option"
  gpr_score_of_training_set :: "real option"
  spline_score_of_training_set :: "real option"

text \<open>
  \<^verbatim>\<open>__init__\<close> (lines 83 to 97) stores its arguments and, when the indices are in
  Julia ordering, subtracts one from every unmasked index. It has no statement that
  raises, so the result is always \<open>Inr\<close>. Line 97 subtracts in the integer type of the
  index array. \<open>BeamEmulator_init\<close> is the constructor on a mask of a signed integer type,
  given by the values of its entries (which stay clear of the least value of the type,
  so that the subtraction is exact); \<open>BeamEmulator_init_unsigned\<close> below is the
  constructor on a mask of the unsigned 64-bit type, where the subtraction is modulo
  \<open>2\<^sup>6\<^sup>4\<close> and takes the entry \<open>0\<close> to the greatest value of the type.
\<close>

definition BeamEmulator_init ::
  "real list \<Rightarrow> int \<Rightarrow> mat \<Rightarrow> tensor \<Rightarrow> real list \<Rightarrow> int list \<Rightarrow> int \<Rightarrow> bool \<Rightarrow>
   int option \<Rightarrow> gpr_kwargs \<Rightarrow> bool \<Rightarrow> bool \<Rightarrow> error + emulator" where
  "BeamEmulator_init freqs ns basis coeffs hypers unmasked iorder gpr corder kwargs horizon julia =
     Inr \<lparr> frequencies = freqs, nside = ns, cryobasis = basis, cryo_coefficients = coeffs,
           hyper_parameter_array = hypers,
           unmasked_indices = (if julia then map (\<lambda>i. i - 1) unmasked else unmasked),
           interpolation_order = iorder, use_gpr = gpr, coefficient_order = corder,
           gpr_kwargs = kwargs, return_beam_above_horizon = horizon,
           unmasked_indices_in_julia_ordering = julia,
           cryo_basis = None,
           cached_hyper_parameter_interpolater = None,
           cached_cryo_basis_kl_to_beam = None,
           estimator_hyper_parameters = None,
           estimator_log_marginal_likelihoods = None,
           gpr_score_of_training_set = None,
           spline_score_of_training_set = None \<rparr>"

definition BeamEmulator_init_unsigned ::
  "real list \<Rightarrow> int \<Rightarrow> mat \<Rightarrow> tensor \<Rightarrow> real list \<Rightarrow> nat list \<Rightarrow> int \<Rightarrow> bool \<Rightarrow>
   int option \<Rightarrow> gpr_kwargs \<Rightarrow> bool \<Rightarrow> bool \<Rightarrow> error + emulator" where
  "BeamEmulator_init_unsigned freqs ns basis coeffs hypers unmasked iorder gpr corder kwargs
       horizon julia =
     Inr \<lparr> frequencies = freqs, nside = ns, cryobasis = basis, cryo_coefficients = coeffs,
           hyper_parameter_array = hypers,
           unmasked_indices =
             (if julia then map (\<lambda>i. (int i - 1) mod 2 ^ 64) unmasked else map int unmasked),
           interpolation_order = iorder, use_gpr = gpr, coefficient_order = corder,
           gpr_kwargs = kwargs, return_beam_above_horizon = horizon,
           unmasked_indices_in_julia_ordering = julia,
           cryo_basis = None,
           cached_hyper_parameter_interpolater = None,
           cached_cryo_basis_kl_to_beam = None,
           estimator_hyper_parameters = None,
           estimator_log_marginal_likelihoods = None,
           gpr_score_of_training_set = None,
           spline_score_of_training_set = None \<rparr>"

text \<open>The property setters of lines 163 to 165 and 214 to 216.\<close>

definition set_hyper_parameter_interpolater :: "interpolater \<Rightarrow> emulator \<Rightarrow> emulator" where
  "set_hyper_parameter_interpolater v e = e\<lparr>cached_hyper_parameter_interpolater := Some v\<rparr>"

definition set_cryo_basis_kl_to_beam :: "mat \<Rightarrow> emulator \<Rightarrow> emulator" where
  "set_cryo_basis_kl_to_beam v e = e\<lparr>cached_cryo_basis_kl_to_beam := Some v\<rparr>"

section \<open>Fitting the interpolater\<close>

text \<open>Lines 107 to 114: the chain has no final \<^verbatim>\<open>else\<close>, so for any other name the
  local \<^verbatim>\<open>kernel\<close> stays unbound (\<open>None\<close>).\<close>

definition select_kernel :: "string \<Rightarrow> scaled_kernel option" where
  "select_kernel desired_kernel =
     (if desired_kernel = ''RBF'' then Some (Product 1 (RBF 1))
      else if desired_kernel = ''Matern_2_5'' then Some (Product 1 (Matern 1 (5 / 2)))
      else if desired_kernel = ''Matern_1_5'' then Some (Product 1 (Matern 1 (3 / 2)))
      else if desired_kernel = ''RQ'' then Some (Product 1 (RationalQuadratic 1 (3 / 2)))
      else None)"

text \<open>Lines 128 to 141, once a regressor is fitted: the per-estimator diagnostics are
  stored first, then the score on the training set, then the regressor itself.\<close>

definition gpr_publish :: "emulator \<Rightarrow> regressor \<Rightarrow> emulator" where
  "gpr_publish e regr =
     e\<lparr> estimator_log_marginal_likelihoods := Some (map snd (regr_estimators regr)),
        estimator_hyper_parameters := Some (map fst (regr_estimators regr)) \<rparr>"

definition gpr_fitted ::
  "emulator \<Rightarrow> mat \<Rightarrow> mat \<Rightarrow> error + regressor \<Rightarrow> (error + interpolater) \<times> emulator" where
  "gpr_fitted e X y r =
     (case r of
        Inl err \<Rightarrow> (Inl err, e)
      | Inr regr \<Rightarrow>
          (case regr_score regr X y of
             Inl err \<Rightarrow> (Inl err, gpr_publish e regr)
           | Inr sc \<Rightarrow>
               (Inr (Regr regr),
                (gpr_publish e regr)\<lparr> gpr_score_of_training_set := Some sc,
                     cached_hyper_parameter_interpolater := Some (Regr regr) \<rparr>)))"

text \<open>
  Lines 105 to 141. With scikit-learn missing, the first name of it that is evaluated
  raises: the kernel class for one of the four names, \<^verbatim>\<open>GaussianProcessRegressor\<close>
  otherwise. With it present and a name outside the four, the estimator's argument
  \<^verbatim>\<open>kernel\<close> is unbound; a regressor name outside the two leaves \<^verbatim>\<open>regr\<close> unbound
  at line 131.
\<close>

definition gpr_fit :: "backend \<Rightarrow> emulator \<Rightarrow> mat \<Rightarrow> (error + interpolater) \<times> emulator" where
  "gpr_fit env e reshaped_coeff =
     (case kw_kernel (gpr_kwargs e) of
        None \<Rightarrow> (Inl KeyError, e)
      | Some desired_kernel \<Rightarrow>
          if \<not> sklearn_available env then (Inl NameError, e)
          else
            (case select_kernel desired_kernel of
               None \<Rightarrow> (Inl UnboundLocalError, e)
             | Some kern \<Rightarrow>
                 (case kw_normalize_y (gpr_kwargs e) of
                    None \<Rightarrow> (Inl KeyError, e)
                  | Some ny \<Rightarrow>
                      (case kw_regressor (gpr_kwargs e) of
                         None \<Rightarrow> (Inl KeyError, e)
                       | Some r \<Rightarrow>
                           let est = \<lparr> est_kernel = kern, n_restarts_optimizer = 20,
                                       normalize_y = ny \<rparr>;
                               X = map (\<lambda>h. [h]) (hyper_parameter_array e)
                           in if r = ''MultiOutput''
                              then gpr_fitted e X reshaped_coeff
                                     (MultiOutputRegressor_fit env est X reshaped_coeff)
                              else if r = ''RegressorChain''
                              then gpr_fitted e X reshaped_coeff
                                     (RegressorChain_fit env est X reshaped_coeff)
                              else (Inl UnboundLocalError, e)))))"

text \<open>
  Lines 144 to 154. The spline is cached before it is evaluated again at the training
  nodes. The statements under the handler-less \<^verbatim>\<open>try\<close> are run as they stand: the
  import of the score function raises when scikit-learn is missing, and what the score
  function raises is raised; in both cases the spline stays in the cache.
\<close>

definition spline_fit :: "backend \<Rightarrow> emulator \<Rightarrow> mat \<Rightarrow> (error + interpolater) \<times> emulator" where
  "spline_fit env e reshaped_coeff =
     (case make_interp_spline env (hyper_parameter_array e) (cryo_coefficients e)
             (interpolation_order e) of
        Inl err \<Rightarrow> (Inl err, e)
      | Inr s \<Rightarrow>
          let e1 = e\<lparr>cached_hyper_parameter_interpolater := Some (BSpline s)\<rparr>
          in (case reshape_rows (length (hyper_parameter_array e))
                     (flatten (map s (hyper_parameter_array e))) of
                Inl err \<Rightarrow> (Inl err, e1)
              | Inr predicted_outputs \<Rightarrow>
                  if \<not> sklearn_available env then (Inl ImportError, e1)
                  else
                    (case r2_score env reshaped_coeff predicted_outputs of
                       Inl err \<Rightarrow> (Inl err, e1)
                     | Inr sc \<Rightarrow>
                         (Inr (BSpline s), e1\<lparr>spline_score_of_training_set := Some sc\<rparr>))))"

text \<open>The property \<^verbatim>\<open>hyper_parameter_interpolater\<close> (lines 99 to 155): fitted on the first
  read, cached afterwards.\<close>

definition hyper_parameter_interpolater ::
  "backend \<Rightarrow> emulator \<Rightarrow> (error + interpolater) \<times> emulator" where
  "hyper_parameter_interpolater env e =
     (case cached_hyper_parameter_interpolater e of
        Some it \<Rightarrow> (Inr it, e)
      | None \<Rightarrow>
          (case reshape_rows (length (hyper_parameter_array e)) (flatten (cryo_coefficients e)) of
             Inl err \<Rightarrow> (Inl err, e)
           | Inr reshaped_coeff \<Rightarrow>
               if use_gpr e then gpr_fit env e reshaped_coeff
               else spline_fit env e reshaped_coeff))"

section \<open>The basis accessor\<close>

text \<open>
  The property \<^verbatim>\<open>cryo_basis_kl_to_beam\<close> (lines 207 to 212): on the first read it takes
  the transpose of the attribute \<open>cryo_basis\<close> and keeps the first
  \<open>coefficient_order\<close> columns. Reading an attribute that was never assigned raises.
\<close>

definition cryo_basis_kl_to_beam :: "emulator \<Rightarrow> (error + mat) \<times> emulator" where
  "cryo_basis_kl_to_beam e =
     (case cached_cryo_basis_kl_to_beam e of
        Some M \<Rightarrow> (Inr M, e)
      | None \<Rightarrow>
          (case cryo_basis e of
             None \<Rightarrow> (Inl AttributeError, e)
           | Some B \<Rightarrow>
               let M = map (slice_upto (coefficient_order e)) (transpose B)
               in (Inr M, e\<lparr>cached_cryo_basis_kl_to_beam := Some M\<rparr>)))"

section \<open>Queries\<close>

text \<open>
  Lines 252 to 258 of \<^verbatim>\<open>__call__\<close>: the interpolated coefficients at
  \<^verbatim>\<open>parameter[0]\<close>. The interpolater property is read first, then the argument.
  The branch is chosen by \<open>use_gpr\<close>, whatever the cached object is: a spline has no
  method \<^verbatim>\<open>predict\<close>, and a regressor is not callable.
\<close>

definition interp_coeff :: "backend \<Rightarrow> emulator \<Rightarrow> real list \<Rightarrow> (error + mat) \<times> emulator" where
  "interp_coeff env e parameter =
     (case hyper_parameter_interpolater env e of
        (Inl err, e1) \<Rightarrow> (Inl err, e1)
      | (Inr it, e1) \<Rightarrow>
          if use_gpr e1 then
            (case it of
               BSpline s \<Rightarrow> (Inl AttributeError, e1)
             | Regr regr \<Rightarrow>
                 (case parameter of
                    [] \<Rightarrow> (Inl IndexError, e1)
                  | p # ps \<Rightarrow>
                      (case regr_predict regr [[p]] of
                         Inl err \<Rightarrow> (Inl err, e1)
                       | Inr out \<Rightarrow> (reshape_rows (length (frequencies e1)) (concat out), e1))))
          else
            (case parameter of
               [] \<Rightarrow> (Inl IndexError, e1)
             | p # ps \<Rightarrow>
                 (case it of
                    BSpline s \<Rightarrow> (Inr (s p), e1)
                  | Regr regr \<Rightarrow> (Inl TypeError, e1))))"

text \<open>
  Lines 264 to 271: one full-sky map per frequency. Each round allocates the zero map,
  reads the basis accessor, multiplies it with row \<open>ifreq\<close> of the coefficients and
  writes the products at the unmasked indices.
\<close>

fun full_sky_loop ::
  "emulator \<Rightarrow> mat \<Rightarrow> nat \<Rightarrow> real list \<Rightarrow> mat \<Rightarrow> (error + mat) \<times> emulator" where
  "full_sky_loop e C ifreq [] cryo_beam_list = (Inr cryo_beam_list, e)"
| "full_sky_loop e C ifreq (freq # rest) cryo_beam_list =
     (case cryo_basis_kl_to_beam e of
        (Inl err, e1) \<Rightarrow> (Inl err, e1)
      | (Inr M, e1) \<Rightarrow>
          if length C \<le> ifreq then (Inl IndexError, e1)
          else
            (case matmul_vec M (C ! ifreq) of
               Inl err \<Rightarrow> (Inl err, e1)
             | Inr funks \<Rightarrow>
                 (case setitem_fancy (replicate (nside2npix (nside e1)) 0)
                         (unmasked_indices e1) funks of
                    Inl err \<Rightarrow> (Inl err, e1)
                  | Inr beam_map \<Rightarrow>
                      full_sky_loop e1 C (Suc ifreq) rest (cryo_beam_list @ [beam_map]))))"

text \<open>\<^verbatim>\<open>__call__\<close> (lines 251 to 271).\<close>

definition BeamEmulator_call :: "backend \<Rightarrow> emulator \<Rightarrow> real list \<Rightarrow> (error + mat) \<times> emulator" where
  "BeamEmulator_call env e parameter =
     (case interp_coeff env e parameter of
        (Inl err, e1) \<Rightarrow> (Inl err, e1)
      | (Inr C, e1) \<Rightarrow>
          if return_beam_above_horizon e1 then
            (case cryo_basis_kl_to_beam e1 of
               (Inl err, e2) \<Rightarrow> (Inl err, e2)
             | (Inr M, e2) \<Rightarrow> (matmul_T M C, e2))
          else full_sky_loop e1 C 0 (frequencies e1) [])"

section \<open>Auxiliary notions\<close>

text \<open>
  The shape conditions that the specification lists for construction, with the basis in
  the layout the accessor expects (one row per coefficient, one column per pixel): the
  mask is as long as the pixel axis of the basis, the leading axis of the coefficient
  tensor is as long as the hyper-parameter grid, and its second axis is as long as the
  frequency grid. The source never evaluates them.
\<close>

definition spec_shapes_consistent ::
  "real list \<Rightarrow> mat \<Rightarrow> tensor \<Rightarrow> real list \<Rightarrow> int list \<Rightarrow> bool" where
  "spec_shapes_consistent freqs basis coeffs hypers unmasked \<longleftrightarrow>
     list_all (\<lambda>row. length row = length unmasked) basis
   \<and> length coeffs = length hypers
   \<and> list_all (\<lambda>sl. length sl = length freqs) coeffs"


text \<open>Two states that agree on everything a query reads apart from the interpolater
  cache and the diagnostics.\<close>

definition same_inputs :: "emulator \<Rightarrow> emulator \<Rightarrow> bool" where
  "same_inputs e e1 \<longleftrightarrow>
     frequencies e1 = frequencies e \<and> nside e1 = nside e
   \<and> unmasked_indices e1 = unmasked_indices e \<and> use_gpr e1 = use_gpr e
   \<and> return_beam_above_horizon e1 = return_beam_above_horizon e
   \<and> cryo_basis e1 = cryo_basis e
   \<and> cached_cryo_basis_kl_to_beam e1 = cached_cryo_basis_kl_to_beam e
   \<and> coefficient_order e1 = coefficient_order e"

subsection \<open>A small installation to run the code on\<close>

text \<open>
  A backend whose spline returns the stored slice at a training node, as an
  interpolating spline does; it is only ever asked at training nodes below. Its
  regressors predict the first training row.
\<close>

definition training_slice :: "real list \<Rightarrow> tensor \<Rightarrow> real \<Rightarrow> mat" where
  "training_slice x y h =
     (case filter (\<lambda>p. fst p = h) (zip x y) of [] \<Rightarrow> [] | p # ps \<Rightarrow> snd p)"

definition example_regressor :: "mat \<Rightarrow> regressor" where
  "example_regressor y =
     \<lparr> regr_predict = (\<lambda>q. Inr (take 1 y)), regr_estimators = [],
       regr_score = (\<lambda>X y. Inr 1) \<rparr>"

definition example_backend :: "bool \<Rightarrow> backend" where
  "example_backend available =
     \<lparr> sklearn_available = available,
       make_interp_spline = (\<lambda>x y k. Inr (training_slice x y)),
       MultiOutputRegressor_fit = (\<lambda>est X y. Inr (example_regressor y)),
       RegressorChain_fit = (\<lambda>est X y. Inr (example_regressor y)),
       r2_score = (\<lambda>a b. Inr 1) \<rparr>"

text \<open>
  Two frequencies, three training nodes, two coefficients, three pixels above the
  horizon, \<open>nside = 1\<close> (twelve pixels on the sky), spline order one. The basis has one
  row per coefficient, so that the accessor's transpose has one row per pixel.
\<close>

definition example_basis :: mat where
  "example_basis = [[1, 0, 1], [0, 1, 1]]"

definition example_coefficients :: tensor where
  "example_coefficients = [[[1, 2], [3, 4]], [[5, 6], [7, 8]], [[9, 10], [11, 12]]]"

definition example_init ::
  "int list \<Rightarrow> bool \<Rightarrow> int option \<Rightarrow> gpr_kwargs \<Rightarrow> bool \<Rightarrow> bool \<Rightarrow> error + emulator" where
  "example_init unmasked gpr corder kwargs horizon julia =
     BeamEmulator_init [50, 51] 1 example_basis example_coefficients [1, 2, 3] unmasked 1
       gpr corder kwargs horizon julia"

definition no_kwargs :: gpr_kwargs where
  "no_kwargs = \<lparr> kw_kernel = None, kw_normalize_y = None, kw_regressor = None \<rparr>"

definition example_kwargs :: "string \<Rightarrow> string \<Rightarrow> gpr_kwargs" where
  "example_kwargs kn rn =
     \<lparr> kw_kernel = Some kn, kw_normalize_y = Some True, kw_regressor = Some rn \<rparr>"

text \<open>The object that the constructor returns for a mask, a truncation order and an
  output mode with the spline strategy, and for a dictionary with the Gaussian-process
  strategy; the indices are in Julia ordering, as by default.\<close>

definition spline_example :: "int list \<Rightarrow> int option \<Rightarrow> bool \<Rightarrow> emulator" where
  "spline_example unmasked corder horizon =
     projr (example_init unmasked False corder no_kwargs horizon True)"

definition gpr_example :: "gpr_kwargs \<Rightarrow> emulator" where
  "gpr_example kwargs = projr (example_init [1, 2, 3] True None kwargs False True)"

text \<open>The transpose of the example basis: one row per pixel.\<close>

definition example_transform :: mat where
  "example_transform = [[1, 0], [0, 1], [1, 1]]"

section \<open>Properties of the array operations\<close>

lemma fold_update_length:
  "length (fold (\<lambda>(i, v) m. m[g i := v]) ps a) = length a"
  by (induction ps arbitrary: a) (simp_all add: case_prod_beta)

lemma fold_update_untouched:
  "\<forall>p \<in> set ps. g (fst p) \<noteq> pos \<Longrightarrow> fold (\<lambda>(i, v) m. m[g i := v]) ps a ! pos = a ! pos"
  by (induction ps arbitrary: a) (simp_all add: case_prod_beta)

lemma fold_update_last:
  assumes "pos < length a" "g i = pos" "\<forall>p \<in> set ps2. g (fst p) \<noteq> pos"
  shows "fold (\<lambda>(i, v) m. m[g i := v]) (ps1 @ (i, v) # ps2) a ! pos = v"
proof -
  let ?f = "\<lambda>(i, v) m. m[g i := v]"
  have "fold ?f (ps1 @ (i, v) # ps2) a = fold ?f ps2 ((fold ?f ps1 a)[g i := v])"
    by simp
  also have "\<dots> ! pos = ((fold ?f ps1 a)[g i := v]) ! pos"
    using assms(3) by (rule fold_update_untouched)
  also have "\<dots> = v"
    using assms(1,2) by (simp add: fold_update_length)
  finally show ?thesis .
qed

lemma wrap_index_less:
  "- int n \<le> i \<Longrightarrow> i < int n \<Longrightarrow> wrap_index n i < n"
  unfolding wrap_index_def by (cases "i < 0") (simp_all add: nat_less_iff)

lemma setitem_fancy_length:
  "setitem_fancy a idx vals = Inr b \<Longrightarrow> length b = length a"
  by (auto simp: setitem_fancy_def fold_update_length split: if_splits)

lemma setitem_fancy_untouched:
  assumes "setitem_fancy a idx vals = Inr b"
    and "\<forall>i \<in> set idx. wrap_index (length a) i \<noteq> pos"
  shows "b ! pos = a ! pos"
proof -
  let ?ps = "zip idx (if length vals = length idx then vals else replicate (length idx) (hd vals))"
  from assms(1) have b: "b = fold (\<lambda>(i, v) m. m[wrap_index (length a) i := v]) ?ps a"
    by (simp add: setitem_fancy_def split: if_splits)
  have "\<forall>p \<in> set ?ps. wrap_index (length a) (fst p) \<noteq> pos"
    using assms(2) set_zip_leftD by fastforce
  then show ?thesis unfolding b by (rule fold_update_untouched)
qed

lemma setitem_fancy_written:
  assumes ok: "setitem_fancy a idx vals = Inr b"
    and len: "length vals = length idx"
    and j: "j < length idx"
    and later: "\<forall>k. j < k \<and> k < length idx \<longrightarrow>
              wrap_index (length a) (idx ! k) \<noteq> wrap_index (length a) (idx ! j)"
  shows "wrap_index (length a) (idx ! j) < length a
       \<and> b ! wrap_index (length a) (idx ! j) = vals ! j"
proof -
  let ?g = "wrap_index (length a)"
  let ?pos = "?g (idx ! j)"
  from ok len have b: "b = fold (\<lambda>(i, v) m. m[?g i := v]) (zip idx vals) a"
    by (simp add: setitem_fancy_def split: if_splits)
  from ok have "list_all (\<lambda>i. - int (length a) \<le> i \<and> i < int (length a)) idx"
    by (simp add: setitem_fancy_def split: if_splits)
  with j have "- int (length a) \<le> idx ! j \<and> idx ! j < int (length a)"
    by (simp add: list_all_length)
  then have pos: "?pos < length a" by (simp add: wrap_index_less)
  have parts: "zip idx vals =
      zip (take j idx) (take j vals) @ (idx ! j, vals ! j)
        # zip (drop (Suc j) idx) (drop (Suc j) vals)"
  proof -
    have "idx = take j idx @ idx ! j # drop (Suc j) idx"
      using j by (rule id_take_nth_drop)
    moreover have "vals = take j vals @ vals ! j # drop (Suc j) vals"
      using j len by (simp add: id_take_nth_drop)
    ultimately have "zip idx vals = zip (take j idx @ idx ! j # drop (Suc j) idx)
        (take j vals @ vals ! j # drop (Suc j) vals)" by simp
    also have "\<dots> = zip (take j idx) (take j vals) @ (idx ! j, vals ! j)
        # zip (drop (Suc j) idx) (drop (Suc j) vals)"
      using len by (subst zip_append) simp_all
    finally show ?thesis .
  qed
  have "\<forall>p \<in> set (zip (drop (Suc j) idx) (drop (Suc j) vals)). ?g (fst p) \<noteq> ?pos"
  proof
    fix p assume "p \<in> set (zip (drop (Suc j) idx) (drop (Suc j) vals))"
    then have "fst p \<in> set (drop (Suc j) idx)"
      using set_zip_leftD [of "fst p" "snd p"] by simp
    then obtain m where "m < length (drop (Suc j) idx)" "fst p = drop (Suc j) idx ! m"
      by (auto simp: in_set_conv_nth)
    then have "fst p = idx ! (Suc j + m)" "Suc j + m < length idx" by simp_all
    with later show "?g (fst p) \<noteq> ?pos" by simp
  qed
  with pos have "fold (\<lambda>(i, v) m. m[?g i := v])
      (zip (take j idx) (take j vals) @ (idx ! j, vals ! j)
         # zip (drop (Suc j) idx) (drop (Suc j) vals)) a ! ?pos = vals ! j"
    by (intro fold_update_last) simp_all
  with b parts pos show ?thesis by simp
qed

section \<open>What a query keeps and what it changes\<close>

lemma same_inputs_refl: "same_inputs e e"
  by (simp add: same_inputs_def)

lemma gpr_fitted_keeps: "same_inputs e (snd (gpr_fitted e X y r))"
  by (cases r)
     (simp_all add: gpr_fitted_def gpr_publish_def same_inputs_def split: sum.split)

lemma gpr_fit_keeps: "same_inputs e (snd (gpr_fit env e y))"
  by (simp add: gpr_fit_def Let_def same_inputs_refl gpr_fitted_keeps split: option.split)

lemma spline_fit_keeps: "same_inputs e (snd (spline_fit env e y))"
  by (simp add: spline_fit_def Let_def same_inputs_def split: sum.split)

lemma hyper_parameter_interpolater_keeps:
  "same_inputs e (snd (hyper_parameter_interpolater env e))"
  by (simp add: hyper_parameter_interpolater_def same_inputs_refl gpr_fit_keeps spline_fit_keeps
      split: option.split sum.split)

lemma interp_coeff_snd:
  "snd (interp_coeff env e p) = snd (hyper_parameter_interpolater env e)"
  by (simp add: interp_coeff_def split: prod.split sum.split interpolater.split list.split)

lemma interp_coeff_keeps: "same_inputs e (snd (interp_coeff env e p))"
  by (simp add: interp_coeff_snd hyper_parameter_interpolater_keeps)

lemma accessor_cached:
  "cached_cryo_basis_kl_to_beam e = Some M \<Longrightarrow> cryo_basis_kl_to_beam e = (Inr M, e)"
  by (simp add: cryo_basis_kl_to_beam_def)

lemma accessor_unset:
  "cached_cryo_basis_kl_to_beam e = None \<Longrightarrow> cryo_basis e = None \<Longrightarrow>
   cryo_basis_kl_to_beam e = (Inl AttributeError, e)"
  by (simp add: cryo_basis_kl_to_beam_def)

lemma full_sky_loop_unset:
  assumes "cached_cryo_basis_kl_to_beam e = None" "cryo_basis e = None" "fs \<noteq> []"
  shows "full_sky_loop e C i fs acc = (Inl AttributeError, e)"
  using assms by (cases fs) (simp_all add: accessor_unset)

lemma full_sky_loop_step:
  assumes "cached_cryo_basis_kl_to_beam e = Some M"
    and "full_sky_loop e C i (f # fs) acc = (Inr R, e2)"
  shows "i < length C \<and> (\<exists>funks bm. matmul_vec M (C ! i) = Inr funks
           \<and> setitem_fancy (replicate (nside2npix (nside e)) 0) (unmasked_indices e) funks = Inr bm
           \<and> full_sky_loop e C (Suc i) fs (acc @ [bm]) = (Inr R, e2))"
  using assms
  by (auto simp: accessor_cached split: if_splits sum.splits)

lemma take_snoc_nth:
  assumes "take (Suc n) R = acc @ [b]" "length acc = n"
  shows "take n R = acc \<and> R ! n = b"
proof -
  from assms have "length (take (Suc n) R) = Suc n" by simp
  then have "n < length R" by simp
  then have "take (Suc n) R = take n R @ [R ! n]"
    by (simp add: take_Suc_conv_app_nth)
  with assms show ?thesis by simp
qed

text \<open>With the basis transform in its cache, the loop of the full-sky branch returns one
  map per frequency, each the zero map overwritten at the unmasked indices.\<close>

lemma full_sky_loop_cached:
  assumes "cached_cryo_basis_kl_to_beam e = Some M"
    and "full_sky_loop e C i fs acc = (Inr R, e2)"
  shows "length R = length acc + length fs \<and> take (length acc) R = acc
       \<and> (\<forall>k < length fs. i + k < length C
            \<and> (\<exists>funks. matmul_vec M (C ! (i + k)) = Inr funks
                 \<and> setitem_fancy (replicate (nside2npix (nside e)) 0) (unmasked_indices e) funks
                     = Inr (R ! (length acc + k))))"
  using assms
proof (induction fs arbitrary: i acc)
  case Nil
  then show ?case by simp
next
  case (Cons f fs)
  from full_sky_loop_step [OF Cons.prems] obtain funks bm where
    i: "i < length C" and fk: "matmul_vec M (C ! i) = Inr funks"
    and bm: "setitem_fancy (replicate (nside2npix (nside e)) 0) (unmasked_indices e) funks = Inr bm"
    and rest: "full_sky_loop e C (Suc i) fs (acc @ [bm]) = (Inr R, e2)"
    by blast
  note ih = Cons.IH [OF Cons.prems(1) rest]
  from ih have len: "length R = length acc + length (f # fs)" by simp
  from ih have tk: "take (Suc (length acc)) R = acc @ [bm]" by simp
  from take_snoc_nth [OF tk refl]
  have tk0: "take (length acc) R = acc" and at: "R ! length acc = bm"
    by simp_all
  have "i + k < length C
        \<and> (\<exists>funks. matmul_vec M (C ! (i + k)) = Inr funks
             \<and> setitem_fancy (replicate (nside2npix (nside e)) 0) (unmasked_indices e) funks
                 = Inr (R ! (length acc + k)))" if k: "k < length (f # fs)" for k
  proof (cases k)
    case 0
    with i fk bm at show ?thesis by simp
  next
    case (Suc k')
    with k have "k' < length fs" by simp
    with ih have "i + Suc k' < length C
        \<and> (\<exists>funks. matmul_vec M (C ! (i + Suc k')) = Inr funks
             \<and> setitem_fancy (replicate (nside2npix (nside e)) 0) (unmasked_indices e) funks
                 = Inr (R ! (length acc + Suc k')))" by simp
    with Suc show ?thesis by simp
  qed
  with len tk0 show ?case by blast
qed

lemma init_fields:
  assumes "BeamEmulator_init f n b c h m k g co kw hz j = Inr e"
  shows "frequencies e = f \<and> nside e = n \<and> hyper_parameter_array e = h
       \<and> cryo_coefficients e = c \<and> use_gpr e = g \<and> gpr_kwargs e = kw
       \<and> return_beam_above_horizon e = hz \<and> coefficient_order e = co
       \<and> unmasked_indices e = (if j then map (\<lambda>i. i - 1) m else m)
       \<and> cryo_basis e = None \<and> cached_cryo_basis_kl_to_beam e = None
       \<and> cached_hyper_parameter_interpolater e = None"
  using assms by (auto simp: BeamEmulator_init_def)

text \<open>A query on an object whose basis attribute and basis cache are both unset.\<close>

lemma call_unset:
  assumes "cryo_basis e = None" "cached_cryo_basis_kl_to_beam e = None"
  shows "(fst (interp_coeff env e p) = Inr C
          \<and> (return_beam_above_horizon e \<or> frequencies e \<noteq> []) \<longrightarrow>
            BeamEmulator_call env e p = (Inl AttributeError, snd (interp_coeff env e p)))
       \<and> (fst (BeamEmulator_call env e p) = Inr R \<longrightarrow>
            R = [] \<and> \<not> return_beam_above_horizon e \<and> frequencies e = [])"
proof -
  obtain r e1 where ic: "interp_coeff env e p = (r, e1)"
    by (cases "interp_coeff env e p")
  from interp_coeff_keeps [of e env p] ic have same: "same_inputs e e1" by simp
  with assms have unset: "cryo_basis e1 = None" "cached_cryo_basis_kl_to_beam e1 = None"
    by (simp_all add: same_inputs_def)
  from same have fr: "frequencies e1 = frequencies e"
    and hz: "return_beam_above_horizon e1 = return_beam_above_horizon e"
    by (simp_all add: same_inputs_def)
  show ?thesis
  proof (cases r)
    case (Inl err)
    with ic show ?thesis by (simp add: BeamEmulator_call_def)
  next
    case (Inr C')
    show ?thesis
    proof (cases "return_beam_above_horizon e")
      case True
      with ic Inr hz unset show ?thesis
        by (simp add: BeamEmulator_call_def accessor_unset)
    next
      case False
      show ?thesis
      proof (cases "frequencies e = []")
        case True
        with ic Inr hz fr False show ?thesis
          by (simp add: BeamEmulator_call_def)
      next
        case nonempty: False
        with fr have "frequencies e1 \<noteq> []" by simp
        from full_sky_loop_unset [OF unset(2) unset(1) this]
        have "full_sky_loop e1 C' 0 (frequencies e1) [] = (Inl AttributeError, e1)" .
        with ic Inr hz False show ?thesis
          by (auto simp: BeamEmulator_call_def)
      qed
    qed
  qed
qed

section \<open>The Gaussian-process branch\<close>

lemma call_interpolater_error:
  "hyper_parameter_interpolater env e = (Inl err, e1) \<Longrightarrow>
   BeamEmulator_call env e p = (Inl err, e1)"
  by (simp add: BeamEmulator_call_def interp_coeff_def)

lemma select_kernel_None:
  "kn \<noteq> ''RBF'' \<Longrightarrow> kn \<noteq> ''Matern_2_5'' \<Longrightarrow> kn \<noteq> ''Matern_1_5'' \<Longrightarrow> kn \<noteq> ''RQ'' \<Longrightarrow>
   select_kernel kn = None"
  by (simp add: select_kernel_def)

lemma select_kernel_table:
  "select_kernel ''RBF'' = Some (Product 1 (RBF 1))"
  "select_kernel ''Matern_2_5'' = Some (Product 1 (Matern 1 (5 / 2)))"
  "select_kernel ''Matern_1_5'' = Some (Product 1 (Matern 1 (3 / 2)))"
  "select_kernel ''RQ'' = Some (Product 1 (RationalQuadratic 1 (3 / 2)))"
  by (simp_all add: select_kernel_def)

lemma interpolater_gpr:
  assumes "cached_hyper_parameter_interpolater e = None" "use_gpr e"
    and "reshape_rows (length (hyper_parameter_array e)) (flatten (cryo_coefficients e)) = Inr y"
  shows "hyper_parameter_interpolater env e = gpr_fit env e y"
  using assms by (simp add: hyper_parameter_interpolater_def)

section \<open>Truncation at the full coefficient count\<close>

lemma transpose_row_length:
  assumes "r \<in> set (transpose B)"
  shows "length r \<le> length B"
proof -
  from assms obtain i where "i < length (transpose B)" "r = transpose B ! i"
    by (auto simp: in_set_conv_nth)
  then have "r = map (\<lambda>xs. xs ! i) (filter (\<lambda>ys. i < length ys) B)"
    by (simp add: nth_transpose)
  then show ?thesis by simp
qed

lemma slice_upto_full:
  "int (length B) \<le> L \<Longrightarrow>
   map (slice_upto (Some L)) (transpose B) = map (slice_upto None) (transpose B)"
proof (rule map_cong [OF refl])
  fix r assume "int (length B) \<le> L" "r \<in> set (transpose B)"
  then have "int (length r) \<le> L" using transpose_row_length [of r B] by simp
  then show "slice_upto (Some L) r = slice_upto None r"
    by (simp add: slice_upto_def)
qed

lemma accessor_order:
  assumes "coefficient_order e = None"
    and "case cryo_basis e of None \<Rightarrow> True | Some B \<Rightarrow> int (length B) \<le> L"
  shows "cryo_basis_kl_to_beam (e\<lparr>coefficient_order := Some L\<rparr>) =
           apsnd (\<lambda>x. x\<lparr>coefficient_order := Some L\<rparr>) (cryo_basis_kl_to_beam e)"
proof (cases "cached_cryo_basis_kl_to_beam e")
  case (Some M)
  then show ?thesis by (simp add: cryo_basis_kl_to_beam_def)
next
  case None
  show ?thesis
  proof (cases "cryo_basis e")
    case n: None
    with None show ?thesis by (simp add: cryo_basis_kl_to_beam_def)
  next
    case (Some B)
    with assms have "map (slice_upto (Some L)) (transpose B)
        = map (slice_upto (coefficient_order e)) (transpose B)"
      by (simp add: slice_upto_full)
    with None Some show ?thesis
      by (simp add: cryo_basis_kl_to_beam_def Let_def)
  qed
qed

lemma accessor_keeps:
  "coefficient_order (snd (cryo_basis_kl_to_beam e)) = coefficient_order e
   \<and> cryo_basis (snd (cryo_basis_kl_to_beam e)) = cryo_basis e"
  by (simp add: cryo_basis_kl_to_beam_def Let_def split: option.split)

lemma full_sky_loop_order:
  assumes "coefficient_order e = None"
    and "case cryo_basis e of None \<Rightarrow> True | Some B \<Rightarrow> int (length B) \<le> L"
  shows "full_sky_loop (e\<lparr>coefficient_order := Some L\<rparr>) C i fs acc =
           apsnd (\<lambda>x. x\<lparr>coefficient_order := Some L\<rparr>) (full_sky_loop e C i fs acc)"
  using assms
proof (induction fs arbitrary: e i acc)
  case Nil
  show ?case by simp
next
  case (Cons f fs)
  obtain r e1 where a: "cryo_basis_kl_to_beam e = (r, e1)"
    by (cases "cryo_basis_kl_to_beam e")
  with accessor_order [OF Cons.prems]
  have a': "cryo_basis_kl_to_beam (e\<lparr>coefficient_order := Some L\<rparr>)
      = (r, e1\<lparr>coefficient_order := Some L\<rparr>)"
    by simp
  from accessor_keeps [of e] a Cons.prems
  have k: "coefficient_order e1 = None"
    "case cryo_basis e1 of None \<Rightarrow> True | Some B \<Rightarrow> int (length B) \<le> L"
    by simp_all
  show ?case
    by (simp add: a a' Cons.IH [OF k] split: sum.split)
qed

lemma gpr_fit_order:
  "gpr_fit env (e\<lparr>coefficient_order := x\<rparr>) y =
     apsnd (\<lambda>s. s\<lparr>coefficient_order := x\<rparr>) (gpr_fit env e y)"
  by (simp add: gpr_fit_def gpr_fitted_def gpr_publish_def Let_def split: option.split sum.split)

lemma spline_fit_order:
  "spline_fit env (e\<lparr>coefficient_order := x\<rparr>) y =
     apsnd (\<lambda>s. s\<lparr>coefficient_order := x\<rparr>) (spline_fit env e y)"
  by (simp add: spline_fit_def Let_def split: sum.split)

lemma interpolater_order:
  "hyper_parameter_interpolater env (e\<lparr>coefficient_order := x\<rparr>) =
     apsnd (\<lambda>s. s\<lparr>coefficient_order := x\<rparr>) (hyper_parameter_interpolater env e)"
  by (simp add: hyper_parameter_interpolater_def gpr_fit_order spline_fit_order
      split: option.split sum.split)

lemma interp_coeff_order:
  "interp_coeff env (e\<lparr>coefficient_order := x\<rparr>) p =
     apsnd (\<lambda>s. s\<lparr>coefficient_order := x\<rparr>) (interp_coeff env e p)"
proof -
  obtain r a where h: "hyper_parameter_interpolater env e = (r, a)"
    by (cases "hyper_parameter_interpolater env e")
  then have "hyper_parameter_interpolater env (e\<lparr>coefficient_order := x\<rparr>)
      = (r, a\<lparr>coefficient_order := x\<rparr>)"
    by (simp add: interpolater_order)
  with h show ?thesis
    by (simp add: interp_coeff_def split: sum.split interpolater.split list.split)
qed

lemma call_order:
  assumes "coefficient_order e = None"
    and "case cryo_basis e of None \<Rightarrow> True | Some B \<Rightarrow> int (length B) \<le> L"
  shows "fst (BeamEmulator_call env (e\<lparr>coefficient_order := Some L\<rparr>) p)
       = fst (BeamEmulator_call env e p)"
proof -
  obtain r a where ic: "interp_coeff env e p = (r, a)"
    by (cases "interp_coeff env e p")
  then have ic': "interp_coeff env (e\<lparr>coefficient_order := Some L\<rparr>) p
      = (r, a\<lparr>coefficient_order := Some L\<rparr>)"
    by (simp add: interp_coeff_order)
  from interp_coeff_keeps [of e env p] ic assms
  have k: "coefficient_order a = None"
    "case cryo_basis a of None \<Rightarrow> True | Some B \<Rightarrow> int (length B) \<le> L"
    by (simp_all add: same_inputs_def)
  show ?thesis
  proof (cases r)
    case (Inl err)
    with ic ic' show ?thesis by (simp add: BeamEmulator_call_def)
  next
    case (Inr C)
    with ic ic' show ?thesis
      by (simp add: BeamEmulator_call_def accessor_order [OF k] full_sky_loop_order [OF k]
          split: prod.split sum.split)
  qed
qed

section \<open>Running the model on concrete inputs\<close>

lemmas run_defs =
  spline_example_def gpr_example_def example_kwargs_def example_transform_def
  example_init_def BeamEmulator_init_def example_backend_def example_basis_def
  example_coefficients_def training_slice_def example_regressor_def no_kwargs_def
  BeamEmulator_call_def interp_coeff_def hyper_parameter_interpolater_def
  BeamEmulator_init_unsigned_def
  spline_fit_def gpr_fit_def gpr_fitted_def gpr_publish_def select_kernel_def
  cryo_basis_kl_to_beam_def reshape_rows_def flatten_def
  set_cryo_basis_kl_to_beam_def matmul_T_def matmul_vec_def dot_def setitem_fancy_def
  wrap_index_def nside2npix_def slice_upto_def Let_def

section \<open>The claims\<close>

subsection \<open>Full-sky queries\<close>

text \<open>
  What the full-sky branch computes once the accessor can deliver the basis transform
  (here: from its cache): one map per frequency, each as long as the sky, and zero at
  every position that no unmasked index addresses.
\<close>

lemma full_sky_query_with_transform:
  assumes full: "\<not> return_beam_above_horizon e"
    and M: "cached_cryo_basis_kl_to_beam e = Some M"
    and call: "BeamEmulator_call env e p = (Inr R, e2)"
    and i: "i < length (frequencies e)"
  shows "length R = length (frequencies e)
       \<and> length (R ! i) = nside2npix (nside e)
       \<and> (\<forall>pos < nside2npix (nside e).
            (\<forall>x \<in> set (unmasked_indices e). wrap_index (nside2npix (nside e)) x \<noteq> pos) \<longrightarrow>
            R ! i ! pos = 0)"
proof -
  let ?npix = "nside2npix (nside e)"
  obtain r e1 where ic: "interp_coeff env e p = (r, e1)"
    by (cases "interp_coeff env e p")
  with call obtain C where r: "r = Inr C"
    by (cases r) (simp_all add: BeamEmulator_call_def)
  from interp_coeff_keeps [of e env p] ic full M have e1:
    "frequencies e1 = frequencies e" "nside e1 = nside e"
    "unmasked_indices e1 = unmasked_indices e"
    "\<not> return_beam_above_horizon e1" "cached_cryo_basis_kl_to_beam e1 = Some M"
    by (simp_all add: same_inputs_def)
  from call ic r e1 have loop: "full_sky_loop e1 C 0 (frequencies e) [] = (Inr R, e2)"
    by (simp add: BeamEmulator_call_def)
  from full_sky_loop_cached [OF e1(5) loop] i e1 obtain funks where
    len: "length R = length (frequencies e)"
    and sc: "setitem_fancy (replicate ?npix 0) (unmasked_indices e) funks = Inr (R ! i)"
    by fastforce
  from setitem_fancy_length [OF sc] have l: "length (R ! i) = ?npix" by simp
  have "R ! i ! pos = 0"
    if "pos < ?npix" "\<forall>x \<in> set (unmasked_indices e). wrap_index ?npix x \<noteq> pos" for pos
  proof -
    from that(2) have "\<forall>x \<in> set (unmasked_indices e).
        wrap_index (length (replicate ?npix (0::real))) x \<noteq> pos" by simp
    from setitem_fancy_untouched [OF sc this] that(1) show ?thesis by simp
  qed
  with len l show ?thesis by blast
qed

text \<open>
  C1. In full-sky mode a query is to return one map of \<open>12 * nside\<^sup>2\<close> pixels per
  frequency, zero outside the mask and holding the projected values at the mask. On
  the object that the constructor returns the query does not get that far: the
  accessor reads the attribute \<open>cryo_basis\<close>, which \<^verbatim>\<open>__init__\<close> never assigns (it
  stores the basis as \<open>cryobasis\<close>), and the query ends in the missing-attribute error.
  The example: two frequencies, mask \<open>[1, 2, 3]\<close> in Julia ordering, a query at the
  training node \<open>2\<close>.
\<close>

theorem full_sky_query_after_init_raises:
  "example_init [1, 2, 3] False None no_kwargs False True
     = Inr (spline_example [1, 2, 3] None False)
   \<and> fst (BeamEmulator_call (example_backend True) (spline_example [1, 2, 3] None False) [2])
     = Inl AttributeError"
  by (simp add: run_defs)

subsection \<open>Horizon-restricted queries\<close>

text \<open>
  What the horizon-restricted branch computes when it returns: the product of the basis
  transform \<open>M\<close> that the accessor delivers (one row per pixel above the horizon) with the
  transpose of the interpolated coefficients \<open>C\<close> (one row per frequency), so one row
  per pixel and one column per frequency.
\<close>

lemma horizon_query_product:
  assumes "return_beam_above_horizon e"
    and "fst (interp_coeff env e p) = Inr C"
    and "fst (cryo_basis_kl_to_beam (snd (interp_coeff env e p))) = Inr M"
    and "BeamEmulator_call env e p = (Inr R, e2)"
  shows "R = map (\<lambda>row. map (\<lambda>c. dot row c) C) M
       \<and> length R = length M
       \<and> list_all (\<lambda>row. length row = length C) R"
proof -
  obtain r e1 where ic: "interp_coeff env e p = (r, e1)"
    by (cases "interp_coeff env e p")
  with assms(2,3) have r: "r = Inr C" and acc: "fst (cryo_basis_kl_to_beam e1) = Inr M"
    by simp_all
  from interp_coeff_keeps [of e env p] ic assms(1) have hz: "return_beam_above_horizon e1"
    by (simp add: same_inputs_def)
  from acc obtain ea where "cryo_basis_kl_to_beam e1 = (Inr M, ea)"
    by (cases "cryo_basis_kl_to_beam e1") simp
  with ic r hz assms(4) have "matmul_T M C = Inr R"
    by (simp add: BeamEmulator_call_def)
  then have R: "R = map (\<lambda>row. map (\<lambda>c. dot row c) C) M"
    by (simp add: matmul_T_def split: if_splits)
  then have "length R = length M" "list_all (\<lambda>row. length row = length C) R"
    by (simp_all add: list_all_iff)
  with R show ?thesis by simp
qed

text \<open>
  C2. In horizon-restricted mode a query is to return one row per frequency, each with
  one value per pixel of the mask: shape \<open>[F, P]\<close>. The code does not: on the object
  that the constructor returns, the query ends in the missing-attribute error of the
  accessor, as in full-sky mode; and with the basis transform supplied through the
  setter of \<^verbatim>\<open>cryo_basis_kl_to_beam\<close> it returns the product untransposed, three rows
  of two values for two frequencies and three pixels, where the full-sky branch of the
  same method returns one row per frequency.
\<close>

theorem horizon_query_after_init_raises:
  "example_init [1, 2, 3] False None no_kwargs True True
     = Inr (spline_example [1, 2, 3] None True)
   \<and> length (frequencies (spline_example [1, 2, 3] None True)) = 2
   \<and> length (unmasked_indices (spline_example [1, 2, 3] None True)) = 3
   \<and> fst (BeamEmulator_call (example_backend True) (spline_example [1, 2, 3] None True) [2])
       = Inl AttributeError
   \<and> fst (BeamEmulator_call (example_backend True)
          (set_cryo_basis_kl_to_beam example_transform (spline_example [1, 2, 3] None True)) [2])
       = Inr [[5, 7], [6, 8], [11, 15]]
   \<and> fst (BeamEmulator_call (example_backend True)
          (set_cryo_basis_kl_to_beam example_transform (spline_example [1, 2, 3] None False)) [2])
       = Inr [[5, 6, 11, 0, 0, 0, 0, 0, 0, 0, 0, 0], [7, 8, 15, 0, 0, 0, 0, 0, 0, 0, 0, 0]]"
  apply (simp add: run_defs)
  apply (simp add: eval_nat_numeral)
  done

subsection \<open>Queries on a freshly constructed object\<close>

text \<open>
  C3, as the code has it. For every object that \<^verbatim>\<open>__init__\<close> returns: a query whose
  interpolation step returns coefficients reaches the accessor and raises the
  missing-attribute error, in horizon-restricted mode always and in full-sky mode as
  soon as there is a frequency; the object is left as the interpolation step left it.
  No query returns pixel values: the only array a query can return is the empty one, in
  full-sky mode with an empty frequency list.
\<close>

theorem query_after_init_raises_AttributeError:
  assumes "BeamEmulator_init f n b c h m k g co kw hz j = Inr e"
  shows "(fst (interp_coeff env e p) = Inr C \<and> (hz \<or> f \<noteq> []) \<longrightarrow>
            BeamEmulator_call env e p = (Inl AttributeError, snd (interp_coeff env e p)))
       \<and> (fst (BeamEmulator_call env e p) = Inr R \<longrightarrow> R = [] \<and> \<not> hz \<and> f = [])"
proof -
  from init_fields [OF assms] have
    a: "cryo_basis e = None" and b: "cached_cryo_basis_kl_to_beam e = None"
    and c: "frequencies e = f" and d: "return_beam_above_horizon e = hz"
    by simp_all
  show ?thesis
    using call_unset [OF a b, of env p C R] unfolding c d .
qed

text \<open>The theorem at the example in horizon-restricted mode, and the query that returns
  the empty array.\<close>

theorem query_after_init_raises_AttributeError_witness:
  "fst (interp_coeff (example_backend True) (spline_example [1, 2, 3] None True) [2])
     = Inr [[5, 6], [7, 8]]
   \<and> BeamEmulator_call (example_backend True) (spline_example [1, 2, 3] None True) [2]
     = (Inl AttributeError,
        snd (interp_coeff (example_backend True) (spline_example [1, 2, 3] None True) [2]))
   \<and> fst (BeamEmulator_call (example_backend True)
            (projr (BeamEmulator_init [] 1 example_basis [[], [], []] [1, 2, 3] [1, 2, 3] 1
                      False None no_kwargs False True)) [2])
     = Inr []"
proof -
  let ?env = "example_backend True"
  let ?e = "spline_example [1, 2, 3] None True"
  let ?i0 = "BeamEmulator_init [] 1 example_basis [[], [], []] [1, 2, 3] [1, 2, 3] 1
                      False None no_kwargs False True"
  have e: "BeamEmulator_init [50, 51] 1 example_basis example_coefficients [1, 2, 3] [1, 2, 3] 1
             False None no_kwargs True True = Inr ?e"
    by (simp add: spline_example_def example_init_def BeamEmulator_init_def)
  have ic: "fst (interp_coeff ?env ?e [2]) = Inr [[5, 6], [7, 8]]"
    by (simp add: run_defs)
  have 1: "BeamEmulator_call ?env ?e [2] = (Inl AttributeError, snd (interp_coeff ?env ?e [2]))"
    using query_after_init_raises_AttributeError [OF e, of ?env "[2]" "[[5, 6], [7, 8]]"] ic
    by simp
  have e0: "?i0 = Inr (projr ?i0)"
    by (simp add: BeamEmulator_init_def)
  have 2: "fst (BeamEmulator_call ?env (projr ?i0) [2]) = Inr []"
    by (simp add: run_defs)
  from ic 1 2 show ?thesis by blast
qed

text \<open>A query that never reaches the accessor: with the Gaussian-process strategy and the
  default dictionary \<^verbatim>\<open>{}\<close>, the lookup of \<^verbatim>\<open>'kernel'\<close> fails first.\<close>

theorem query_need_not_reach_accessor_counterexample:
  "example_init [1, 2, 3] True None no_kwargs False True = Inr (gpr_example no_kwargs)
   \<and> fst (BeamEmulator_call (example_backend True) (gpr_example no_kwargs) [2]) = Inl KeyError"
  by (simp add: run_defs)

subsection \<open>Interpolation at the training nodes\<close>







subsection \<open>Construction\<close>

text \<open>
  C5, as the code has it. Construction compares no shapes: for all arguments, of
  consistent shapes or not, it returns the object holding the arrays as supplied
  (the mask shifted when in Julia ordering). It never fails.
\<close>

theorem init_never_fails:
  "\<exists>e. BeamEmulator_init f n b c h m k g co kw hz j = Inr e
      \<and> frequencies e = f \<and> nside e = n \<and> cryobasis e = b \<and> cryo_coefficients e = c
      \<and> hyper_parameter_array e = h
      \<and> unmasked_indices e = (if j then map (\<lambda>i. i - 1) m else m)"
  by (simp add: BeamEmulator_init_def)

text \<open>A mask of five indices with a basis of three pixels is accepted.\<close>

theorem init_accepts_inconsistent_shapes_counterexample:
  "\<not> spec_shapes_consistent [50, 51] example_basis example_coefficients [1, 2, 3] [1, 2, 3, 4, 5]
   \<and> example_init [1, 2, 3, 4, 5] False None no_kwargs False True
       = Inr (spline_example [1, 2, 3, 4, 5] None False)
   \<and> example_init [1, 2, 3, 4, 5] False None no_kwargs False True \<noteq> Inl DimensionMismatch"
  by (simp add: run_defs spec_shapes_consistent_def)

subsection \<open>Kernel and regressor names\<close>

text \<open>
  C6, as the code has it. Take the Gaussian-process strategy on an object that has not
  fitted yet, with scikit-learn present, coefficients that reshape, and a \<^verbatim>\<open>'kernel'\<close>
  entry \<open>kn\<close>. If \<open>kn\<close> is none of the four names, the first query fails with
  \<open>UnboundLocalError\<close> and leaves the object unchanged. If \<open>kn\<close> is one of them and
  \<^verbatim>\<open>'normalize_y'\<close> is given, a \<^verbatim>\<open>'regressor'\<close> entry that is neither of the two names
  fails the same way. The four names select the unit-scaled RBF, Matern with
  \<open>\<nu> = 5/2\<close>, Matern with \<open>\<nu> = 3/2\<close> and rational-quadratic kernel with
  \<open>\<alpha> = 3/2\<close>; the two regressor names fit the multi-output regressor and the
  regressor chain on an estimator with that kernel and twenty optimizer restarts.
\<close>

theorem gpr_names:
  assumes fresh: "cached_hyper_parameter_interpolater e = None"
    and gpr: "use_gpr e"
    and avail: "sklearn_available env"
    and y: "reshape_rows (length (hyper_parameter_array e)) (flatten (cryo_coefficients e)) = Inr y"
    and kn: "kw_kernel (gpr_kwargs e) = Some kn"
  shows "(kn \<noteq> ''RBF'' \<and> kn \<noteq> ''Matern_2_5'' \<and> kn \<noteq> ''Matern_1_5'' \<and> kn \<noteq> ''RQ'' \<longrightarrow>
            BeamEmulator_call env e p = (Inl UnboundLocalError, e))
       \<and> (select_kernel kn = Some kern \<and> kw_normalize_y (gpr_kwargs e) = Some ny
            \<and> kw_regressor (gpr_kwargs e) = Some rn
            \<and> rn \<noteq> ''MultiOutput'' \<and> rn \<noteq> ''RegressorChain'' \<longrightarrow>
            BeamEmulator_call env e p = (Inl UnboundLocalError, e))
       \<and> select_kernel ''RBF'' = Some (Product 1 (RBF 1))
       \<and> select_kernel ''Matern_2_5'' = Some (Product 1 (Matern 1 (5 / 2)))
       \<and> select_kernel ''Matern_1_5'' = Some (Product 1 (Matern 1 (3 / 2)))
       \<and> select_kernel ''RQ'' = Some (Product 1 (RationalQuadratic 1 (3 / 2)))
       \<and> (select_kernel kn = Some kern \<and> kw_normalize_y (gpr_kwargs e) = Some ny
            \<and> kw_regressor (gpr_kwargs e) = Some ''MultiOutput'' \<longrightarrow>
            hyper_parameter_interpolater env e =
              gpr_fitted e (map (\<lambda>h. [h]) (hyper_parameter_array e)) y
                (MultiOutputRegressor_fit env
                   \<lparr> est_kernel = kern, n_restarts_optimizer = 20, normalize_y = ny \<rparr>
                   (map (\<lambda>h. [h]) (hyper_parameter_array e)) y))
       \<and> (select_kernel kn = Some kern \<and> kw_normalize_y (gpr_kwargs e) = Some ny
            \<and> kw_regressor (gpr_kwargs e) = Some ''RegressorChain'' \<longrightarrow>
            hyper_parameter_interpolater env e =
              gpr_fitted e (map (\<lambda>h. [h]) (hyper_parameter_array e)) y
                (RegressorChain_fit env
                   \<lparr> est_kernel = kern, n_restarts_optimizer = 20, normalize_y = ny \<rparr>
                   (map (\<lambda>h. [h]) (hyper_parameter_array e)) y))"
proof -
  note h = interpolater_gpr [OF fresh gpr y, of env]
  have 1: "BeamEmulator_call env e p = (Inl UnboundLocalError, e)"
    if "kn \<noteq> ''RBF''" "kn \<noteq> ''Matern_2_5''" "kn \<noteq> ''Matern_1_5''" "kn \<noteq> ''RQ''"
  proof -
    from that have "select_kernel kn = None" by (rule select_kernel_None)
    with kn avail have "gpr_fit env e y = (Inl UnboundLocalError, e)"
      by (simp add: gpr_fit_def)
    with h show ?thesis by (simp add: call_interpolater_error)
  qed
  have 2: "BeamEmulator_call env e p = (Inl UnboundLocalError, e)"
    if "select_kernel kn = Some kern" "kw_normalize_y (gpr_kwargs e) = Some ny"
      "kw_regressor (gpr_kwargs e) = Some rn" "rn \<noteq> ''MultiOutput''" "rn \<noteq> ''RegressorChain''"
  proof -
    from that kn avail have "gpr_fit env e y = (Inl UnboundLocalError, e)"
      by (simp add: gpr_fit_def)
    with h show ?thesis by (simp add: call_interpolater_error)
  qed
  have 3: "hyper_parameter_interpolater env e =
              gpr_fitted e (map (\<lambda>h. [h]) (hyper_parameter_array e)) y
                (MultiOutputRegressor_fit env
                   \<lparr> est_kernel = kern, n_restarts_optimizer = 20, normalize_y = ny \<rparr>
                   (map (\<lambda>h. [h]) (hyper_parameter_array e)) y)"
    if "select_kernel kn = Some kern" "kw_normalize_y (gpr_kwargs e) = Some ny"
      "kw_regressor (gpr_kwargs e) = Some ''MultiOutput''"
    using that kn avail h by (simp add: gpr_fit_def Let_def)
  have 4: "hyper_parameter_interpolater env e =
              gpr_fitted e (map (\<lambda>h. [h]) (hyper_parameter_array e)) y
                (RegressorChain_fit env
                   \<lparr> est_kernel = kern, n_restarts_optimizer = 20, normalize_y = ny \<rparr>
                   (map (\<lambda>h. [h]) (hyper_parameter_array e)) y)"
    if "select_kernel kn = Some kern" "kw_normalize_y (gpr_kwargs e) = Some ny"
      "kw_regressor (gpr_kwargs e) = Some ''RegressorChain''"
    using that kn avail h by (simp add: gpr_fit_def Let_def)
  from 1 2 3 4 select_kernel_table show ?thesis by blast
qed

text \<open>The theorem at an unknown kernel name, at an unknown regressor name, and at a known
  pair.\<close>

theorem gpr_names_witness:
  "BeamEmulator_call (example_backend True) (gpr_example (example_kwargs ''Linear'' ''MultiOutput'')) [2]
     = (Inl UnboundLocalError, gpr_example (example_kwargs ''Linear'' ''MultiOutput''))
   \<and> BeamEmulator_call (example_backend True) (gpr_example (example_kwargs ''RBF'' ''Bagging'')) [2]
     = (Inl UnboundLocalError, gpr_example (example_kwargs ''RBF'' ''Bagging''))
   \<and> hyper_parameter_interpolater (example_backend True)
        (gpr_example (example_kwargs ''Matern_2_5'' ''RegressorChain''))
     = gpr_fitted (gpr_example (example_kwargs ''Matern_2_5'' ''RegressorChain''))
         [[1], [2], [3]] [[1, 2, 3, 4], [5, 6, 7, 8], [9, 10, 11, 12]]
         (RegressorChain_fit (example_backend True)
            \<lparr> est_kernel = Product 1 (Matern 1 (5 / 2)), n_restarts_optimizer = 20,
               normalize_y = True \<rparr>
            [[1], [2], [3]] [[1, 2, 3, 4], [5, 6, 7, 8], [9, 10, 11, 12]])"
proof -
  let ?env = "example_backend True"
  let ?y = "[[1, 2, 3, 4], [5, 6, 7, 8], [9, 10, 11, 12 :: real]]"
  have pre: "cached_hyper_parameter_interpolater (gpr_example (example_kwargs kn rn)) = None"
    "use_gpr (gpr_example (example_kwargs kn rn))"
    "reshape_rows (length (hyper_parameter_array (gpr_example (example_kwargs kn rn))))
       (flatten (cryo_coefficients (gpr_example (example_kwargs kn rn)))) = Inr ?y"
    "kw_kernel (gpr_kwargs (gpr_example (example_kwargs kn rn))) = Some kn"
    "kw_normalize_y (gpr_kwargs (gpr_example (example_kwargs kn rn))) = Some True"
    "kw_regressor (gpr_kwargs (gpr_example (example_kwargs kn rn))) = Some rn"
    "hyper_parameter_array (gpr_example (example_kwargs kn rn)) = [1, 2, 3]"
    for kn rn
    by (simp_all add: run_defs)
  have av: "sklearn_available ?env" by (simp add: example_backend_def)
  have 1: "BeamEmulator_call ?env (gpr_example (example_kwargs ''Linear'' ''MultiOutput'')) [2]
     = (Inl UnboundLocalError, gpr_example (example_kwargs ''Linear'' ''MultiOutput''))"
    using gpr_names [OF pre(1) pre(2) av pre(3) pre(4), of "''Linear''" "''MultiOutput''" "[2]"]
    by simp
  have 2: "BeamEmulator_call ?env (gpr_example (example_kwargs ''RBF'' ''Bagging'')) [2]
     = (Inl UnboundLocalError, gpr_example (example_kwargs ''RBF'' ''Bagging''))"
    using gpr_names [OF pre(1) pre(2) av pre(3) pre(4), of "''RBF''" "''Bagging''" "[2]"
        "Product 1 (RBF 1)" True "''Bagging''"]
    by (simp add: pre select_kernel_table)
  have 3: "hyper_parameter_interpolater ?env
        (gpr_example (example_kwargs ''Matern_2_5'' ''RegressorChain''))
     = gpr_fitted (gpr_example (example_kwargs ''Matern_2_5'' ''RegressorChain''))
         [[1], [2], [3]] ?y
         (RegressorChain_fit ?env
            \<lparr> est_kernel = Product 1 (Matern 1 (5 / 2)), n_restarts_optimizer = 20,
               normalize_y = True \<rparr>
            [[1], [2], [3]] ?y)"
    using gpr_names [OF pre(1) pre(2) av pre(3) pre(4), of "''Matern_2_5''" "''RegressorChain''"
        "[2]" "Product 1 (Matern 1 (5 / 2))" True]
    by (simp add: pre select_kernel_table)
  from 1 2 3 show ?thesis by blast
qed

text \<open>The kernel name \<^verbatim>\<open>'Linear'\<close> fails with \<open>UnboundLocalError\<close>.\<close>

theorem unknown_kernel_not_ConfigurationError_counterexample:
  "example_init [1, 2, 3] True None (example_kwargs ''Linear'' ''MultiOutput'') False True
     = Inr (gpr_example (example_kwargs ''Linear'' ''MultiOutput''))
   \<and> fst (BeamEmulator_call (example_backend True)
            (gpr_example (example_kwargs ''Linear'' ''MultiOutput'')) [2])
     = Inl UnboundLocalError
   \<and> fst (BeamEmulator_call (example_backend True)
            (gpr_example (example_kwargs ''Linear'' ''MultiOutput'')) [2])
     \<noteq> Inl ConfigurationError"
  by (simp add: run_defs)

subsection \<open>A missing scikit-learn\<close>

text \<open>
  C7, as the code has it. Without scikit-learn, construction with the Gaussian-process
  strategy still succeeds, and the failure comes with the first query, which leaves the
  object unchanged: it raises \<open>ValueError\<close> if the coefficients do not reshape onto the
  grid, otherwise \<open>KeyError\<close> if the dictionary has no \<^verbatim>\<open>'kernel'\<close> entry, otherwise
  \<open>NameError\<close> at the first name of scikit-learn that is evaluated.
\<close>

theorem missing_backend_fails_at_first_query:
  assumes "\<not> sklearn_available env"
  shows "\<exists>e. BeamEmulator_init f n b c h m k True co kw hz j = Inr e
           \<and> BeamEmulator_call env e p =
               (Inl (if isl (reshape_rows (length h) (flatten c)) then ValueError
                     else if kw_kernel kw = None then KeyError
                     else NameError), e)"
proof -
  obtain e where e: "BeamEmulator_init f n b c h m k True co kw hz j = Inr e"
    by (simp add: BeamEmulator_init_def)
  note fl = init_fields [OF e]
  have "hyper_parameter_interpolater env e =
          (Inl (if isl (reshape_rows (length h) (flatten c)) then ValueError
                else if kw_kernel kw = None then KeyError
                else NameError), e)"
  proof (cases "reshape_rows (length h) (flatten c)")
    case (Inl err)
    then have "err = ValueError" by (simp add: reshape_rows_def split: if_splits)
    with Inl fl show ?thesis by (simp add: hyper_parameter_interpolater_def)
  next
    case (Inr y)
    with fl have "hyper_parameter_interpolater env e = gpr_fit env e y"
      by (intro interpolater_gpr) simp_all
    with Inr fl assms show ?thesis
      by (simp add: gpr_fit_def split: option.split)
  qed
  then have "BeamEmulator_call env e p =
               (Inl (if isl (reshape_rows (length h) (flatten c)) then ValueError
                     else if kw_kernel kw = None then KeyError
                     else NameError), e)"
    by (rule call_interpolater_error)
  with e show ?thesis by blast
qed

text \<open>The theorem at the example with the kernel name \<^verbatim>\<open>'RBF'\<close>.\<close>

theorem missing_backend_fails_at_first_query_witness:
  "example_init [1, 2, 3] True None (example_kwargs ''RBF'' ''MultiOutput'') False True
     = Inr (gpr_example (example_kwargs ''RBF'' ''MultiOutput''))
   \<and> BeamEmulator_call (example_backend False)
        (gpr_example (example_kwargs ''RBF'' ''MultiOutput'')) [2]
     = (Inl NameError, gpr_example (example_kwargs ''RBF'' ''MultiOutput''))"
proof -
  let ?env = "example_backend False"
  let ?kw = "example_kwargs ''RBF'' ''MultiOutput''"
  have h1: "\<not> sklearn_available ?env" by (simp add: example_backend_def)
  have c: "BeamEmulator_init [50, 51] 1 example_basis example_coefficients [1, 2, 3] [1, 2, 3] 1
             True None ?kw False True = Inr (gpr_example ?kw)"
    by (simp add: gpr_example_def example_init_def BeamEmulator_init_def)
  have r: "\<not> isl (reshape_rows (length [1, 2, 3 :: real]) (flatten example_coefficients))"
    "kw_kernel ?kw \<noteq> None"
    by (simp_all add: run_defs)
  from missing_backend_fails_at_first_query [OF h1,
      of "[50, 51]" 1 example_basis example_coefficients "[1, 2, 3]" "[1, 2, 3]" 1 None ?kw
         False True "[2]"] c r
  have "BeamEmulator_call ?env (gpr_example ?kw) [2] = (Inl NameError, gpr_example ?kw)"
    by auto
  with c show ?thesis by (simp add: example_init_def)
qed

text \<open>Construction with the Gaussian-process strategy and no scikit-learn returns the
  object; the failure comes with the query.\<close>

theorem missing_backend_construction_counterexample:
  "\<not> sklearn_available (example_backend False)
   \<and> example_init [1, 2, 3] True None (example_kwargs ''RBF'' ''MultiOutput'') False True
       = Inr (gpr_example (example_kwargs ''RBF'' ''MultiOutput''))
   \<and> example_init [1, 2, 3] True None (example_kwargs ''RBF'' ''MultiOutput'') False True
       \<noteq> Inl MissingDependency
   \<and> fst (BeamEmulator_call (example_backend False)
            (gpr_example (example_kwargs ''RBF'' ''MultiOutput'')) [2])
       = Inl NameError"
  by (simp add: run_defs)

text \<open>With the spline strategy and no scikit-learn, the first query of the example stops
  at the import of the score function under the handler-less \<^verbatim>\<open>try\<close>.\<close>

lemma spline_first_query_without_backend:
  "fst (BeamEmulator_call (example_backend False) (spline_example [1, 2, 3] None False) [2])
     = Inl ImportError"
  by (simp add: run_defs)

subsection \<open>Index normalisation\<close>

text \<open>
  C8. When the constructor is told that the unmasked indices are one-based (Julia
  ordering), the object holds every index decreased by exactly one; otherwise it holds
  them as supplied. The mask \<open>[1, 5, 10]\<close> with the flag set is held as \<open>[0, 4, 9]\<close>.
  The stored list is the only copy a query reads.
\<close>

theorem init_normalises_unmasked_indices:
  "(\<exists>e. BeamEmulator_init f n b c h m k g co kw hz True = Inr e
        \<and> unmasked_indices e = map (\<lambda>i. i - 1) m)
   \<and> (\<exists>e. BeamEmulator_init f n b c h m k g co kw hz False = Inr e
        \<and> unmasked_indices e = m)
   \<and> (\<exists>e. BeamEmulator_init f n b c h [1, 5, 10] k g co kw hz True = Inr e
        \<and> unmasked_indices e = [0, 4, 9])"
  by (simp add: BeamEmulator_init_def)

subsection \<open>Truncation\<close>

text \<open>
  C9. Two objects constructed from the same arguments, one with
  \<open>coefficient_order = L\<close> and one with none, answer every query alike. This holds for
  the objects as constructed and after the same assignment to the attribute
  \<open>cryo_basis\<close> (a basis with \<open>L\<close> coefficient rows) and to the cache of the accessor.
\<close>

theorem full_order_equals_no_truncation:
  assumes "BeamEmulator_init f n b c h m k g (Some L) kw hz j = Inr e1"
    and "BeamEmulator_init f n b c h m k g None kw hz j = Inr e2"
    and "case assigned of None \<Rightarrow> True | Some B \<Rightarrow> int (length B) = L"
  shows "fst (BeamEmulator_call env
            (e1\<lparr>cryo_basis := assigned, cached_cryo_basis_kl_to_beam := preset\<rparr>) p)
       = fst (BeamEmulator_call env
            (e2\<lparr>cryo_basis := assigned, cached_cryo_basis_kl_to_beam := preset\<rparr>) p)"
proof -
  let ?e = "e2\<lparr>cryo_basis := assigned, cached_cryo_basis_kl_to_beam := preset\<rparr>"
  from assms(1,2) have
    "e1\<lparr>cryo_basis := assigned, cached_cryo_basis_kl_to_beam := preset\<rparr>
       = ?e\<lparr>coefficient_order := Some L\<rparr>"
    by (auto simp: BeamEmulator_init_def)
  moreover from assms(2) have "coefficient_order ?e = None"
    by (auto simp: BeamEmulator_init_def)
  moreover from assms(3) have
    "case cryo_basis ?e of None \<Rightarrow> True | Some B \<Rightarrow> int (length B) \<le> L"
    by (simp split: option.splits)
  ultimately show ?thesis by (simp add: call_order)
qed

text \<open>The theorem at the example with its basis assigned to \<open>cryo_basis\<close> and \<open>L = 2\<close>:
  both queries return the same array.\<close>

theorem full_order_equals_no_truncation_witness:
  "fst (BeamEmulator_call (example_backend True)
          ((spline_example [1, 2, 3] (Some 2) True)
             \<lparr>cryo_basis := Some example_basis, cached_cryo_basis_kl_to_beam := None\<rparr>) [2])
     = Inr [[5, 7], [6, 8], [11, 15]]
   \<and> fst (BeamEmulator_call (example_backend True)
          ((spline_example [1, 2, 3] None True)
             \<lparr>cryo_basis := Some example_basis, cached_cryo_basis_kl_to_beam := None\<rparr>) [2])
     = Inr [[5, 7], [6, 8], [11, 15]]"
proof -
  let ?env = "example_backend True"
  have e1: "BeamEmulator_init [50, 51] 1 example_basis example_coefficients [1, 2, 3] [1, 2, 3] 1
             False (Some 2) no_kwargs True True = Inr (spline_example [1, 2, 3] (Some 2) True)"
    by (simp add: spline_example_def example_init_def BeamEmulator_init_def)
  have e2: "BeamEmulator_init [50, 51] 1 example_basis example_coefficients [1, 2, 3] [1, 2, 3] 1
             False None no_kwargs True True = Inr (spline_example [1, 2, 3] None True)"
    by (simp add: spline_example_def example_init_def BeamEmulator_init_def)
  have b: "case Some example_basis of None \<Rightarrow> True | Some B \<Rightarrow> int (length B) = 2"
    by (simp add: example_basis_def)
  note t = full_order_equals_no_truncation [OF e1 e2 b, of ?env None "[2]"]
  have v: "fst (BeamEmulator_call ?env
          ((spline_example [1, 2, 3] None True)
             \<lparr>cryo_basis := Some example_basis, cached_cryo_basis_kl_to_beam := None\<rparr>) [2])
     = Inr [[5, 7], [6, 8], [11, 15]]"
    by (simp add: run_defs)
  with t show ?thesis by simp
qed

subsection \<open>The index zero in Julia ordering\<close>

text \<open>
  What the write of line 269 does with the entry \<open>0\<close> of a signed mask in Julia
  ordering, once the accessor can deliver a basis transform of one row per mask entry:
  the entry is held as \<open>-1\<close>, and whenever the full-sky query returns, every frequency
  row holds the projected value of that entry at the last position, provided no other
  entry addresses that position.
\<close>

lemma zero_index_written_at_last_pixel:
  assumes init: "BeamEmulator_init f n b c h um k g co kw False True = Inr e0"
    and j: "j < length um" "um ! j = 0"
    and others: "\<forall>k. k \<noteq> j \<and> k < length um \<longrightarrow> um ! k \<noteq> 0 \<and> um ! k \<noteq> int (nside2npix n)"
    and M: "length M = length um"
    and C: "fst (interp_coeff env (set_cryo_basis_kl_to_beam M e0) p) = Inr C"
    and call: "BeamEmulator_call env (set_cryo_basis_kl_to_beam M e0) p = (Inr R, e2)"
    and i: "i < length f"
  shows "unmasked_indices e0 ! j = - 1 \<and> i < length R
       \<and> R ! i ! (nside2npix n - 1) = dot (M ! j) (C ! i)"
proof -
  let ?e = "set_cryo_basis_kl_to_beam M e0"
  let ?npix = "nside2npix n"
  let ?idx = "map (\<lambda>i. i - 1) um"
  from others have later:
    "\<forall>k. j < k \<and> k < length um \<longrightarrow> um ! k \<noteq> 0 \<and> um ! k \<noteq> int (nside2npix n)"
    by simp
  note fl = init_fields [OF init]
  from fl have idx: "unmasked_indices e0 = ?idx" by simp
  obtain r e1 where ic: "interp_coeff env ?e p = (r, e1)"
    by (cases "interp_coeff env ?e p")
  with C have r: "r = Inr C" by simp
  from interp_coeff_keeps [of ?e env p] ic fl have e1:
    "frequencies e1 = f" "nside e1 = n" "unmasked_indices e1 = ?idx"
    "\<not> return_beam_above_horizon e1" "cached_cryo_basis_kl_to_beam e1 = Some M"
    by (simp_all add: same_inputs_def set_cryo_basis_kl_to_beam_def)
  from call ic r e1 have loop: "full_sky_loop e1 C 0 f [] = (Inr R, e2)"
    by (simp add: BeamEmulator_call_def)
  from full_sky_loop_cached [OF e1(5) loop] i e1 obtain funks where
    len: "length R = length f" and iC: "i < length C"
    and fk: "matmul_vec M (C ! i) = Inr funks"
    and sc: "setitem_fancy (replicate ?npix 0) ?idx funks = Inr (R ! i)"
    by fastforce
  from fk have funks: "funks = map (\<lambda>row. dot row (C ! i)) M"
    by (simp add: matmul_vec_def split: if_splits)
  with M have lf: "length funks = length ?idx" by simp
  from sc have "list_all (\<lambda>i. - int ?npix \<le> i \<and> i < int ?npix) ?idx"
    by (simp add: setitem_fancy_def split: if_splits)
  then have rng: "- int ?npix \<le> um ! m - 1 \<and> um ! m - 1 < int ?npix"
    if "m < length um" for m
    using that by (auto simp: list_all_length)
  from rng [OF j(1)] have "- int ?npix \<le> um ! j - 1" by simp
  with j(2) have pos: "0 < ?npix" by simp
  have wj: "wrap_index ?npix (um ! j - 1) = ?npix - 1"
    using j pos by (simp add: wrap_index_def nat_diff_distrib')
  have "wrap_index ?npix (?idx ! k) \<noteq> ?npix - 1"
    if "j < k" "k < length um" for k
  proof -
    from later that have ne: "um ! k \<noteq> 0" "um ! k \<noteq> int ?npix" by simp_all
    from rng [OF that(2)] have lo: "0 \<le> um ! k - 1 + int ?npix" by simp
    show ?thesis
    proof (cases "um ! k - 1 < 0")
      case True
      with lo ne(1) pos have "nat (um ! k - 1 + int ?npix) \<noteq> ?npix - 1" by linarith
      with True that show ?thesis by (simp add: wrap_index_def)
    next
      case False
      with ne(2) pos have "nat (um ! k - 1) \<noteq> ?npix - 1" by linarith
      with False that show ?thesis by (simp add: wrap_index_def)
    qed
  qed
  with wj j(1) have lat: "\<forall>k. j < k \<and> k < length ?idx \<longrightarrow>
      wrap_index (length (replicate ?npix (0::real))) (?idx ! k)
        \<noteq> wrap_index (length (replicate ?npix (0::real))) (?idx ! j)"
    by simp
  from setitem_fancy_written [OF sc lf _ lat] j
  have "R ! i ! wrap_index (length (replicate ?npix (0::real))) (?idx ! j) = funks ! j"
    by simp
  with wj j(1) have "R ! i ! (?npix - 1) = funks ! j" by simp
  also from funks j M have "funks ! j = dot (M ! j) (C ! i)" by simp
  finally have "R ! i ! (?npix - 1) = dot (M ! j) (C ! i)" .
  moreover from idx j have "unmasked_indices e0 ! j = - 1" by simp
  moreover from len i have "i < length R" by simp
  ultimately show ?thesis by simp
qed

text \<open>
  On a mask of the unsigned 64-bit type the constructor stores the same values as on a
  signed one when every entry is at least one; the entry \<open>0\<close> is stored as
  \<open>2\<^sup>6\<^sup>4 - 1\<close>, which the write of line 269 rejects.
\<close>

lemma init_unsigned_agrees:
  assumes "list_all (\<lambda>i. 1 \<le> i \<and> i < 2 ^ 64) um"
  shows "BeamEmulator_init_unsigned f n b c h um k g co kw hz j
       = BeamEmulator_init f n b c h (map int um) k g co kw hz j"
proof -
  have "(int i - 1) mod 2 ^ 64 = int i - 1" if "i \<in> set um" for i
  proof -
    from assms that have "1 \<le> i" "i < 2 ^ 64" by (simp_all add: list_all_iff)
    then have "0 \<le> int i - 1" "int i - 1 < 2 ^ 64" by simp_all
    then show ?thesis by simp
  qed
  then have "map (\<lambda>i. (int i - 1) mod 2 ^ 64) um = map (\<lambda>i. i - 1) (map int um)"
    by simp
  then show ?thesis
    by (simp add: BeamEmulator_init_unsigned_def BeamEmulator_init_def)
qed

lemma init_unsigned_zero:
  "BeamEmulator_init_unsigned f n b c h [0, 1, 2] k g co kw hz True = Inr e \<Longrightarrow>
   unmasked_indices e = [18446744073709551615, 0, 1]"
  by (auto simp: BeamEmulator_init_unsigned_def)

lemma unsigned_zero_index_is_rejected:
  "fst (BeamEmulator_call (example_backend True)
          (set_cryo_basis_kl_to_beam example_transform
             (projr (BeamEmulator_init_unsigned [50, 51] 1 example_basis example_coefficients
                [1, 2, 3] [0, 1, 2] 1 False None no_kwargs False True))) [2])
     = Inl IndexError"
  by (simp add: run_defs)

text \<open>
  C10. With the flag set, the entry \<open>0\<close> of a signed mask is held as \<open>-1\<close> and
  construction accepts it; in full-sky mode its projected value is to be written at the
  last position \<open>12 * nside\<^sup>2 - 1\<close>. On the object that the constructor returns the
  query does not reach the write: it ends in the missing-attribute error of the
  accessor. The example: the signed mask \<open>[0, 1, 2]\<close>, held as \<open>[-1, 0, 1]\<close>, with
  \<open>nside = 1\<close>; with the basis transform supplied through the setter, the projected
  values \<open>5\<close> and \<open>7\<close> of the entry \<open>0\<close> stand at position \<open>11\<close>.
\<close>

theorem zero_index_query_after_init_raises:
  "example_init [0, 1, 2] False None no_kwargs False True
     = Inr (spline_example [0, 1, 2] None False)
   \<and> unmasked_indices (spline_example [0, 1, 2] None False) = [- 1, 0, 1]
   \<and> fst (BeamEmulator_call (example_backend True) (spline_example [0, 1, 2] None False) [2])
       = Inl AttributeError
   \<and> fst (BeamEmulator_call (example_backend True)
            (set_cryo_basis_kl_to_beam example_transform (spline_example [0, 1, 2] None False)) [2])
       = Inr [[6, 11, 0, 0, 0, 0, 0, 0, 0, 0, 0, 5], [8, 15, 0, 0, 0, 0, 0, 0, 0, 0, 0, 7]]
   \<and> dot (example_transform ! 0) [5, 6] = 5 \<and> dot (example_transform ! 0) [7, 8] = 7"
  apply (simp add: run_defs)
  apply (simp add: eval_nat_numeral)
  done

end
